theory Spec2Isabelle
  imports Complex_Main "HOL-Library.Sublist"
begin

section \<open>JavaScript values\<close>

text \<open>
  The loader works on whatever \<^verbatim>\<open>JSON.parse\<close> returns and is typed \<^verbatim>\<open>any\<close>, so the
  model keeps the dynamic values: \<open>JUndefined\<close> is what reading a missing property gives.
  A parsed object is the list of its own properties (\<^verbatim>\<open>JSON.parse\<close> never leaves two
  with one key). Numbers are integers here: the code only tests a number for being zero
  and compares categories with small integer codes. Strings are lists of \<^typ>\<open>char\<close>;
  white space and letter case are those of ASCII.
\<close>

datatype json =
    JUndefined
  | JNull
  | JBool bool
  | JNum int
  | JStr string
  | JArr "json list"
  | JObj "(string \<times> json) list"

text \<open>\<^verbatim>\<open>!v\<close> is \<open>\<not> truthy v\<close>.\<close>

fun truthy :: "json \<Rightarrow> bool" where
  "truthy JUndefined = False"
| "truthy JNull = False"
| "truthy (JBool b) = b"
| "truthy (JNum n) = (n \<noteq> 0)"
| "truthy (JStr s) = (s \<noteq> [])"
| "truthy (JArr xs) = True"
| "truthy (JObj kvs) = True"

text \<open>\<^verbatim>\<open>typeof v === 'object'\<close>: true of objects, of arrays and of \<^verbatim>\<open>null\<close>.\<close>

fun typeofObject :: "json \<Rightarrow> bool" where
  "typeofObject JNull = True"
| "typeofObject (JArr xs) = True"
| "typeofObject (JObj kvs) = True"
| "typeofObject v = False"

fun isArray :: "json \<Rightarrow> bool" where
  "isArray (JArr xs) = True"
| "isArray v = False"

fun isPrimitive :: "json \<Rightarrow> bool" where
  "isPrimitive (JArr xs) = False"
| "isPrimitive (JObj kvs) = False"
| "isPrimitive v = True"

fun nullish :: "json \<Rightarrow> bool" where
  "nullish JUndefined = True"
| "nullish JNull = True"
| "nullish v = False"

text \<open>
  \<^verbatim>\<open>v.k\<close> for the property names the loader reads (\<^verbatim>\<open>endpoints\<close>, \<^verbatim>\<open>areas\<close>,
  \<^verbatim>\<open>metadata\<close>, \<^verbatim>\<open>uuid\<close>, \<^verbatim>\<open>name\<close>, \<^verbatim>\<open>partitions\<close>, \<^verbatim>\<open>category\<close>, \<^verbatim>\<open>revision\<close>,
  \<^verbatim>\<open>major\<close>, \<^verbatim>\<open>minor\<close>): none of them is inherited by an array, a string, a number
  or a boolean, so only an object can hold one. On \<^verbatim>\<open>null\<close> and \<^verbatim>\<open>undefined\<close> the read
  throws; every function below that can reach such a read has a branch for it.
\<close>

fun getProp :: "json \<Rightarrow> string \<Rightarrow> json" where
  "getProp (JObj kvs) k = (case map_of kvs k of Some v \<Rightarrow> v | None \<Rightarrow> JUndefined)"
| "getProp v k = JUndefined"

text \<open>\<^verbatim>\<open>a || b\<close>.\<close>

definition orElse :: "json \<Rightarrow> json \<Rightarrow> json" where
  "orElse a b = (if truthy a then a else b)"

text \<open>
  The comparison of \<^verbatim>\<open>Array.prototype.includes\<close> and of \<^verbatim>\<open>Map\<close> keys: primitives by
  value, objects and arrays by identity. The two sides compared below always come from
  different places of the parsed document, so an object or array never equals the other side.
\<close>

definition sameValueZero :: "json \<Rightarrow> json \<Rightarrow> bool" where
  "sameValueZero a b = (isPrimitive a \<and> a = b)"

definition arrIncludes :: "json list \<Rightarrow> json \<Rightarrow> bool" where
  "arrIncludes xs v = list_ex (\<lambda>x. sameValueZero x v) xs"

section \<open>Strings\<close>

definition isWhiteSpace :: "char \<Rightarrow> bool" where
  "isWhiteSpace c = (c \<in> set [CHR 0x09, CHR 0x0A, CHR 0x0B, CHR 0x0C, CHR 0x0D, CHR '' ''])"

definition toLowerChar :: "char \<Rightarrow> char" where
  "toLowerChar c =
     (case map_of (zip ''ABCDEFGHIJKLMNOPQRSTUVWXYZ'' ''abcdefghijklmnopqrstuvwxyz'') c of
        Some l \<Rightarrow> l
      | None \<Rightarrow> c)"

definition toLowerCase :: "string \<Rightarrow> string" where
  "toLowerCase s = map toLowerChar s"

definition trim :: "string \<Rightarrow> string" where
  "trim s = rev (dropWhile isWhiteSpace (rev (dropWhile isWhiteSpace s)))"

text \<open>
  \<^verbatim>\<open>s.split(/\s+/)\<close>: the pieces between maximal runs of white space. \<open>inRun\<close> says that
  the character before was white space, \<open>cur\<close> is the piece being read, reversed. A
  string that starts or ends with white space gets an empty first or last piece, and the
  empty string splits into one empty piece, as in JavaScript.
\<close>

fun splitWs :: "bool \<Rightarrow> string \<Rightarrow> string \<Rightarrow> string list" where
  "splitWs inRun cur [] = [rev cur]"
| "splitWs inRun cur (c # cs) =
     (if isWhiteSpace c then
        (if inRun then splitWs True cur cs else rev cur # splitWs True [] cs)
      else splitWs False (c # cur) cs)"

definition splitWhitespace :: "string \<Rightarrow> string list" where
  "splitWhitespace s = splitWs False [] s"

text \<open>\<^verbatim>\<open>content.includes(t)\<close>: \<open>t\<close> occurs in \<open>content\<close> as a contiguous piece.\<close>

fun strIncludes :: "string \<Rightarrow> string \<Rightarrow> bool" where
  "strIncludes [] t = (t = [])"
| "strIncludes (c # cs) t = (prefix t (c # cs) \<or> strIncludes cs t)"

section \<open>Numbers of the relevance score\<close>

text \<open>
  The score is a JavaScript number, a double. A finite double is kept as the rational it
  stands for; \<open>NaN\<close> and the infinities are values of their own. The division rounds its
  exact quotient to the nearest double: the rounding \<open>rnd\<close> is a parameter, and
  \<open>rounding rnd\<close> says what the theorems use of it (it is monotone, and 0 and 1 are
  doubles).
\<close>

datatype number = NaN | Finite rat | PosInfinity | NegInfinity

definition numDiv :: "(rat \<Rightarrow> rat) \<Rightarrow> nat \<Rightarrow> nat \<Rightarrow> number" where
  "numDiv rnd a b =
     (if b = 0 then (if a = 0 then NaN else PosInfinity)
      else Finite (rnd (of_nat a / of_nat b)))"

text \<open>\<^verbatim>\<open>x >= y\<close>: false as soon as one side is \<open>NaN\<close>.\<close>

fun numGe :: "number \<Rightarrow> number \<Rightarrow> bool" where
  "numGe NaN y = False"
| "numGe x NaN = False"
| "numGe (Finite a) (Finite b) = (b \<le> a)"
| "numGe PosInfinity y = True"
| "numGe x NegInfinity = True"
| "numGe x y = False"

definition rounding :: "(rat \<Rightarrow> rat) \<Rightarrow> bool" where
  "rounding rnd = (mono rnd \<and> rnd 0 = 0 \<and> rnd 1 = 1)"

section \<open>Documents\<close>

record Document =
  pageContent :: string
  metadata :: json

record ExtendDocument = Document +
  readableText :: "string option"

section \<open>The relevance filter\<close>

text \<open>
  \<^verbatim>\<open>filterByContentRelevance(docs, query, threshold = 0.3)\<close> of \<^verbatim>\<open>src/config/RAGNLP.ts\<close>
  (the copies in the other files differ in the default threshold only, which is an
  argument here). \<open>queryTerms\<close> are the pieces of the lower-cased query longer than two
  characters; \<open>scoreOf\<close> is the \<^verbatim>\<open>forEach\<close> that adds one for each term found in the
  content; \<open>relevanceScore\<close> is the quotient the callback compares with the threshold.
\<close>

definition queryTerms :: "string \<Rightarrow> string list" where
  "queryTerms query = filter (\<lambda>tm. length tm > 2) (splitWhitespace (toLowerCase query))"

definition scoreOf :: "string \<Rightarrow> string list \<Rightarrow> nat" where
  "scoreOf content terms =
     foldl (\<lambda>score tm. if strIncludes content tm then score + 1 else score) 0 terms"

definition relevanceScore :: "(rat \<Rightarrow> rat) \<Rightarrow> string \<Rightarrow> 'a Document_scheme \<Rightarrow> number" where
  "relevanceScore rnd query doc =
     (let content = toLowerCase (pageContent doc);
          score = scoreOf content (queryTerms query)
      in numDiv rnd score (length (queryTerms query)))"

definition filterByContentRelevance ::
  "(rat \<Rightarrow> rat) \<Rightarrow> 'a Document_scheme list \<Rightarrow> string \<Rightarrow> number \<Rightarrow> 'a Document_scheme list" where
  "filterByContentRelevance rnd docs query threshold =
     filter (\<lambda>doc. numGe (relevanceScore rnd query doc) threshold) docs"

section \<open>The loader: area maps\<close>

text \<open>
  From here on the model follows the loader that \<^verbatim>\<open>src/config/RAGNLP.ts\<close> holds after its
  first part (\<^verbatim>\<open>loadDocumentsJSON\<close> and its mapping functions). What the console prints
  is left out, but not the building of a message: a template literal converts each value
  it holds to text, and that conversion can throw.
\<close>

datatype error = Error string | TypeError

text \<open>
  \<open>toStringThrows v\<close>: converting \<open>v\<close> to text, as a template literal and
  \<^verbatim>\<open>Array.prototype.join\<close> do, throws a \<^verbatim>\<open>TypeError\<close>. A parsed object is converted by its
  \<^verbatim>\<open>toString\<close>; an own property of that name is never a function, and then neither
  \<^verbatim>\<open>toString\<close> nor \<^verbatim>\<open>valueOf\<close> gives a primitive. An array joins the texts of its
  elements. Every other value has a text.
\<close>

fun toStringThrows :: "json \<Rightarrow> bool" where
  "toStringThrows (JObj kvs) = list_ex (\<lambda>kv. fst kv = ''toString'') kvs"
| "toStringThrows (JArr xs) = list_ex toStringThrows xs"
| "toStringThrows v = False"

record Partition =
  uuid :: json
  name :: json

record AreaPartitionMap =
  areaUuid :: json
  areaName :: json
  partitions :: "Partition list"

text \<open>
  The loop over \<^verbatim>\<open>area.partitions\<close>; \<open>acc\<close> is \<^verbatim>\<open>areaMap.partitions\<close>, to which the body
  pushes. A partition that is a string is its own uuid and gets the name
  \<^verbatim>\<open>Partition_\<close> followed by its first 8 characters; any other partition is read for its
  \<^verbatim>\<open>uuid\<close> and \<^verbatim>\<open>name\<close>. The two warnings put \<^verbatim>\<open>area.name\<close> into their message: when the
  name has no text the loop ends with the exception.
\<close>

definition partitionUuid :: "json \<Rightarrow> json" where
  "partitionUuid part =
     (case part of JStr s \<Rightarrow> part | _ \<Rightarrow> getProp part ''uuid'')"

definition partitionName :: "json \<Rightarrow> json" where
  "partitionName part =
     (case part of
        JStr s \<Rightarrow> JStr (''Partition_'' @ take 8 s)
      | _ \<Rightarrow> getProp part ''name'')"

fun partitionsLoop :: "json \<Rightarrow> json list \<Rightarrow> Partition list \<Rightarrow> error + Partition list" where
  "partitionsLoop area [] acc = Inr acc"
| "partitionsLoop area (part # rest) acc =
     (if \<not> truthy part then
        (if toStringThrows (getProp area ''name'') then Inl TypeError
         else partitionsLoop area rest acc)
      else if truthy (partitionUuid part) \<and> truthy (partitionName part) then
        partitionsLoop area rest
          (acc @ [\<lparr>uuid = partitionUuid part, name = partitionName part\<rparr>])
      else
        (if toStringThrows (getProp area ''name'') then Inl TypeError
         else partitionsLoop area rest acc))"

text \<open>
  The part of the loop body that builds \<^verbatim>\<open>areaMap\<close>, from its creation to just before
  \<^verbatim>\<open>maps.push(areaMap)\<close>.
\<close>

definition areaMapOf :: "json \<Rightarrow> error + AreaPartitionMap" where
  "areaMapOf area =
     (case getProp area ''partitions'' of
        JArr ps \<Rightarrow>
          (case partitionsLoop area ps [] of
             Inl e \<Rightarrow> Inl e
           | Inr parts \<Rightarrow>
               Inr \<lparr>areaUuid = getProp area ''uuid'', areaName = getProp area ''name'',
                    partitions = parts\<rparr>)
      | _ \<Rightarrow>
          Inr \<lparr>areaUuid = getProp area ''uuid'', areaName = getProp area ''name'',
               partitions = []\<rparr>)"

text \<open>
  The loop over \<^verbatim>\<open>jsonContent.areas\<close>. The two \<^verbatim>\<open>continue\<close> are the first two branches;
  the \<^verbatim>\<open>catch\<close> is the branch \<open>Inl\<close>, which goes on with the next area without pushing.
  The message printed after the push can throw as well; the area is in \<open>maps\<close> by then
  and the \<^verbatim>\<open>catch\<close> only goes on.
\<close>

fun areasLoop :: "json list \<Rightarrow> AreaPartitionMap list \<Rightarrow> AreaPartitionMap list" where
  "areasLoop [] maps = maps"
| "areasLoop (area # rest) maps =
     (if \<not> truthy area \<or> \<not> typeofObject area then areasLoop rest maps
      else if \<not> truthy (getProp area ''uuid'') \<or> \<not> truthy (getProp area ''name'') then
        areasLoop rest maps
      else (case areaMapOf area of
              Inl e \<Rightarrow> areasLoop rest maps
            | Inr areaMap \<Rightarrow> areasLoop rest (maps @ [areaMap])))"

definition buildAreaPartitionMaps :: "json \<Rightarrow> error + AreaPartitionMap list" where
  "buildAreaPartitionMaps jsonContent =
     (if nullish jsonContent then Inl TypeError
      else (case getProp jsonContent ''areas'' of
              JArr areas \<Rightarrow> Inr (areasLoop areas [])
            | _ \<Rightarrow> Inr []))"

section \<open>The loader: relations between endpoints and areas\<close>

text \<open>
  The fields \<^verbatim>\<open>areaUuid\<close> and \<^verbatim>\<open>areaName\<close> of the relation are \<open>relAreaUuid\<close> and
  \<open>relAreaName\<close> here: the area map has fields of the same names.
\<close>

record EndpointAreaRelation =
  endpointUuid :: json
  endpointName :: json
  relAreaUuid :: json
  relAreaName :: json
  partitionUuids :: "json list"
  location :: "json list"

text \<open>
  The \<^verbatim>\<open>Map\<close> of relations is the list of its entries in insertion order. A key that is
  a primitive is compared by value; a uuid that is an object or an array is its own
  identity, which no other endpoint shares: \<open>KRef i\<close> is the uuid object of endpoint \<open>i\<close>.
\<close>

datatype key = KPrim json | KRef nat

definition mapKey :: "nat \<Rightarrow> json \<Rightarrow> key" where
  "mapKey i u = (if isPrimitive u then KPrim u else KRef i)"

type_synonym relations = "(key \<times> EndpointAreaRelation) list"

fun mapSet :: "key \<Rightarrow> EndpointAreaRelation \<Rightarrow> relations \<Rightarrow> relations" where
  "mapSet k r [] = [(k, r)]"
| "mapSet k r ((k', r') # rest) = (if k' = k then (k, r) # rest else (k', r') # mapSet k r rest)"

text \<open>
  \<^verbatim>\<open>endpoint.name || `Device_${endpoint.uuid.substring(0, 8)}`\<close>: when the name is
  falsy and the uuid is not a string, \<^verbatim>\<open>substring\<close> is not a function and the call throws.
\<close>

definition endpointNameOf :: "json \<Rightarrow> error + json" where
  "endpointNameOf endpoint =
     (if truthy (getProp endpoint ''name'') then Inr (getProp endpoint ''name'')
      else (case getProp endpoint ''uuid'' of
              JStr u \<Rightarrow> Inr (JStr (''Device_'' @ take 8 u))
            | _ \<Rightarrow> Inl TypeError))"

definition sharedPartitions :: "json list \<Rightarrow> AreaPartitionMap \<Rightarrow> Partition list" where
  "sharedPartitions endpointPartitions areaMap =
     filter (\<lambda>areaPartition. arrIncludes endpointPartitions (uuid areaPartition))
       (partitions areaMap)"

definition relationOf ::
  "json \<Rightarrow> json \<Rightarrow> json list \<Rightarrow> AreaPartitionMap \<Rightarrow> EndpointAreaRelation" where
  "relationOf endpoint nm endpointPartitions areaMap =
     \<lparr>endpointUuid = getProp endpoint ''uuid'',
      endpointName = nm,
      relAreaUuid = areaUuid areaMap,
      relAreaName = areaName areaMap,
      partitionUuids = map uuid (sharedPartitions endpointPartitions areaMap),
      location = map name (sharedPartitions endpointPartitions areaMap)\<rparr>"

text \<open>
  The loop over \<^verbatim>\<open>areaPartitionMaps\<close> for one endpoint. \<open>map_of relations k\<close> is
  \<^verbatim>\<open>relations.get(endpoint.uuid)\<close>, and \<^verbatim>\<open>relations.has\<close> says whether it is there. Each
  branch ends with a message; when a value of the message has no text, the exception
  leaves the loop and the \<^verbatim>\<open>catch\<close> of the endpoint goes on with the next endpoint, the
  relations being what they were at that point.
\<close>

fun areaMapsLoop ::
  "key \<Rightarrow> json \<Rightarrow> json \<Rightarrow> json list \<Rightarrow> AreaPartitionMap list \<Rightarrow> relations \<Rightarrow> relations" where
  "areaMapsLoop k endpoint nm endpointPartitions [] relations = relations"
| "areaMapsLoop k endpoint nm endpointPartitions (areaMap # rest) relations =
     (if length (sharedPartitions endpointPartitions areaMap) > 0 then
        (case map_of relations k of
           Some existing \<Rightarrow>
             if toStringThrows (getProp endpoint ''uuid'')
                \<or> toStringThrows (relAreaName existing)
                \<or> toStringThrows (areaName areaMap)
             then relations
             else areaMapsLoop k endpoint nm endpointPartitions rest relations
         | None \<Rightarrow>
             if toStringThrows nm \<or> toStringThrows (areaName areaMap)
             then mapSet k (relationOf endpoint nm endpointPartitions areaMap) relations
             else areaMapsLoop k endpoint nm endpointPartitions rest
                    (mapSet k (relationOf endpoint nm endpointPartitions areaMap) relations))
      else areaMapsLoop k endpoint nm endpointPartitions rest relations)"

text \<open>
  The body of the loop over the endpoints, for the endpoint at index \<open>endpointIndex\<close>.
  The \<^verbatim>\<open>try\<close> around it turns the \<^verbatim>\<open>TypeError\<close> of the name into a \<^verbatim>\<open>continue\<close>.
\<close>

definition endpointStep ::
  "nat \<Rightarrow> json \<Rightarrow> AreaPartitionMap list \<Rightarrow> relations \<Rightarrow> relations" where
  "endpointStep endpointIndex endpoint areaPartitionMaps relations =
     (if \<not> truthy endpoint \<or> \<not> truthy (getProp endpoint ''uuid'') then relations
      else (case getProp endpoint ''partitions'' of
              JArr endpointPartitions \<Rightarrow>
                (if length endpointPartitions = 0 then relations
                 else (case endpointNameOf endpoint of
                         Inl e \<Rightarrow> relations
                       | Inr nm \<Rightarrow>
                           areaMapsLoop (mapKey endpointIndex (getProp endpoint ''uuid''))
                             endpoint nm endpointPartitions areaPartitionMaps relations))
            | _ \<Rightarrow> relations))"

fun endpointsLoop ::
  "nat \<Rightarrow> json list \<Rightarrow> AreaPartitionMap list \<Rightarrow> relations \<Rightarrow> relations" where
  "endpointsLoop endpointIndex [] areaPartitionMaps relations = relations"
| "endpointsLoop endpointIndex (endpoint # rest) areaPartitionMaps relations =
     endpointsLoop (endpointIndex + 1) rest areaPartitionMaps
       (endpointStep endpointIndex endpoint areaPartitionMaps relations)"

text \<open>
  The report after the loop (from \<^verbatim>\<open>ENDPOINT-AREA RELATIONSHIP REPORT\<close> to the
  \<^verbatim>\<open>return\<close>). It prints only, but it stands outside every \<^verbatim>\<open>try\<close>: an exception in it
  leaves \<^verbatim>\<open>buildEndpointAreaRelations\<close>. The definitions say when it throws.

  With relations in the map, the first three are printed: the name of the endpoint and
  of the area, the key (the uuid of the endpoint) and the joined location.
\<close>

definition relationReportThrows :: "relations \<Rightarrow> bool" where
  "relationReportThrows relations =
     list_ex (\<lambda>entry.
         toStringThrows (endpointName (snd entry))
         \<or> toStringThrows (relAreaName (snd entry))
         \<or> toStringThrows (endpointUuid (snd entry))
         \<or> list_ex toStringThrows (location (snd entry)))
       (take 3 relations)"

text \<open>
  With no relation, every area map is printed with the joined names of its partitions,
  and then the first five endpoints.
\<close>

definition areaReportThrows :: "AreaPartitionMap \<Rightarrow> bool" where
  "areaReportThrows areas =
     (toStringThrows (areaName areas) \<or> list_ex toStringThrows (map name (partitions areas)))"

text \<open>\<^verbatim>\<open>x > y\<close> on numbers: false as soon as one side is \<open>NaN\<close>.\<close>

fun numGt :: "number \<Rightarrow> number \<Rightarrow> bool" where
  "numGt NaN y = False"
| "numGt x NaN = False"
| "numGt (Finite a) (Finite b) = (b < a)"
| "numGt PosInfinity PosInfinity = False"
| "numGt PosInfinity y = True"
| "numGt NegInfinity y = False"
| "numGt x NegInfinity = True"
| "numGt x y = False"

text \<open>
  \<^verbatim>\<open>v > 0\<close> for the value \<open>v\<close> of \<^verbatim>\<open>ep.partitions?.length\<close>, which can be any value when
  the partitions are an object with a property \<^verbatim>\<open>length\<close>. \<^verbatim>\<open>undefined\<close> is \<open>NaN\<close>,
  \<^verbatim>\<open>null\<close> is 0, \<^verbatim>\<open>true\<close> is 1. An object is converted to a primitive first; that throws
  under \<open>toStringThrows\<close> and gives the text \<^verbatim>\<open>[object Object]\<close>, which is \<open>NaN\<close>, otherwise.
  The number that a string stands for, and the one that the text of an array stands
  for, are the language's \<^verbatim>\<open>ToNumber\<close>, the parameter \<open>toNumber\<close>.
\<close>

fun greaterThanZero :: "(json \<Rightarrow> number) \<Rightarrow> json \<Rightarrow> error + bool" where
  "greaterThanZero toNumber JUndefined = Inr False"
| "greaterThanZero toNumber JNull = Inr False"
| "greaterThanZero toNumber (JBool b) = Inr b"
| "greaterThanZero toNumber (JNum n) = Inr (n > 0)"
| "greaterThanZero toNumber (JStr s) = Inr (numGt (toNumber (JStr s)) (Finite 0))"
| "greaterThanZero toNumber (JArr xs) =
     (if toStringThrows (JArr xs) then Inl TypeError
      else Inr (numGt (toNumber (JArr xs)) (Finite 0)))"
| "greaterThanZero toNumber (JObj kvs) =
     (if toStringThrows (JObj kvs) then Inl TypeError else Inr False)"

text \<open>
  The callback on one of the first five endpoints:
  \<^verbatim>\<open>if (ep.partitions?.length > 0) console.log(`   ${ep.name}: [${ep.partitions.join(', ')}]`)\<close>.
  Reading \<^verbatim>\<open>ep.partitions\<close> throws when \<^verbatim>\<open>ep\<close> is \<^verbatim>\<open>null\<close>. Partitions that are a
  non-empty string, or an object whose length is above 0, have no function \<^verbatim>\<open>join\<close>:
  the message throws. Partitions that are a non-empty array are joined.
\<close>

definition endpointReportThrows :: "(json \<Rightarrow> number) \<Rightarrow> json \<Rightarrow> bool" where
  "endpointReportThrows toNumber ep =
     (if nullish ep then True
      else (case getProp ep ''partitions'' of
              JStr s \<Rightarrow> length s > 0
            | JArr xs \<Rightarrow>
                length xs > 0 \<and> (toStringThrows (getProp ep ''name'') \<or> list_ex toStringThrows xs)
            | JObj kvs \<Rightarrow>
                (case greaterThanZero toNumber (getProp (JObj kvs) ''length'') of
                   Inl e \<Rightarrow> True
                 | Inr b \<Rightarrow> b)
            | _ \<Rightarrow> False))"

definition reportThrows ::
  "(json \<Rightarrow> number) \<Rightarrow> json list \<Rightarrow> AreaPartitionMap list \<Rightarrow> relations \<Rightarrow> bool" where
  "reportThrows toNumber endpoints areaPartitionMaps relations =
     (if length relations > 0 then relationReportThrows relations
      else list_ex areaReportThrows areaPartitionMaps
           \<or> list_ex (endpointReportThrows toNumber) (take 5 endpoints))"

text \<open>
  The two guards return the empty map (\<^verbatim>\<open>jsonContent?.areas\<close> is \<^verbatim>\<open>undefined\<close> when
  \<^verbatim>\<open>jsonContent\<close> is \<^verbatim>\<open>null\<close> or \<^verbatim>\<open>undefined\<close>, as \<open>getProp\<close> is). After them
  \<^verbatim>\<open>jsonContent.endpoints.entries()\<close> throws unless the endpoints are an array. Then come
  the loop and the report.
\<close>

definition buildEndpointAreaRelations ::
  "(json \<Rightarrow> number) \<Rightarrow> json \<Rightarrow> AreaPartitionMap list \<Rightarrow> error + relations" where
  "buildEndpointAreaRelations toNumber jsonContent areaPartitionMaps =
     (if \<not> truthy (getProp jsonContent ''areas'') \<or> \<not> isArray (getProp jsonContent ''areas'')
      then Inr []
      else if length areaPartitionMaps = 0 then Inr []
      else (case getProp jsonContent ''endpoints'' of
              JArr endpoints \<Rightarrow>
                (let relations = endpointsLoop 0 endpoints areaPartitionMaps [] in
                 if reportThrows toNumber endpoints areaPartitionMaps relations
                 then Inl TypeError
                 else Inr relations)
            | _ \<Rightarrow> Inl TypeError))"

section \<open>The loader: documents\<close>

text \<open>
  What \<^verbatim>\<open>loadDocumentsJSON\<close> takes from outside is gathered in a record:
  \<^item> \<open>readFile\<close>: the content \<^verbatim>\<open>fs.readFile(filePath, 'utf-8')\<close> resolves to, \<open>None\<close> when it
    rejects;
  \<^item> \<open>JSON_parse\<close>: \<^verbatim>\<open>JSON.parse\<close>, \<open>None\<close> when it throws;
  \<^item> \<open>JSON_stringify\<close>: \<^verbatim>\<open>JSON.stringify\<close>;
  \<^item> \<open>buildGlobalPartitionMap\<close>: the function imported from
    \<^verbatim>\<open>./buildGlobalPartitionsMap.js\<close>, a file that is not among the sources; its \<^verbatim>\<open>Map\<close> from
    partition uuid to name is the list of its entries, and \<open>Inl\<close> stands for a call that
    throws;
  \<^item> \<open>now\<close>: \<^verbatim>\<open>new Date().toISOString()\<close>;
  \<^item> \<open>random\<close>: \<^verbatim>\<open>Math.random().toString(36).substring(2, 9)\<close>;
  \<^item> \<open>toNumber\<close>: the language's \<^verbatim>\<open>ToNumber\<close>, which the report of
    \<^verbatim>\<open>buildEndpointAreaRelations\<close> applies to a string or to the text of an array.
\<close>

record Env =
  readFile :: "string option"
  JSON_parse :: "string \<Rightarrow> json option"
  JSON_stringify :: "json \<Rightarrow> string"
  buildGlobalPartitionMap :: "json \<Rightarrow> error + (string \<times> string) list"
  now :: string
  random :: string
  toNumber :: "json \<Rightarrow> number"

record LoadDocumentResult =
  documents :: "ExtendDocument list"
  partitionMap :: "(string \<times> string) list"

definition targetFile :: string where
  "targetFile = ''installation-config.json''"

definition filePath :: string where
  "filePath = ''/home/luca/RagBaseNLP/src/data/installation-config.json''"

text \<open>\<^verbatim>\<open>getFallbackDocument(error)\<close>, called with an \<^verbatim>\<open>Error\<close> whose message is \<open>message\<close>.\<close>

definition getFallbackDocument :: "Env \<Rightarrow> string \<Rightarrow> LoadDocumentResult" where
  "getFallbackDocument env message =
     (let fallbackUUID = ''fallback-'' @ random env;
          fallBack =
            \<lparr>pageContent =
               JSON_stringify env
                 (JObj [(''error'', JStr ''Failed to load document''),
                        (''message'', JStr message),
                        (''fallbackType'', JStr ''empty_system'')]),
             metadata =
               JObj [(''source'', JStr ''fallback''),
                     (''loc'', JStr ''internal''),
                     (''type'', JStr ''installation-config''),
                     (''isValid'', JBool False),
                     (''timestamp'', JStr (now env)),
                     (''uuid'', JStr fallbackUUID),
                     (''name'', JStr ''Fallback Document''),
                     (''category'', JNum (- 1)),
                     (''visualizationType'', JStr ''N/A''),
                     (''deviceType'', JStr ''other''),
                     (''categoryName'', JStr ''fallback''),
                     (''visualizationCategory'', JStr ''fallback''),
                     (''id'', JStr ''0''),
                     (''partitions'', JArr []),
                     (''location'', JArr []),
                     (''areaNames'', JArr []),
                     (''areaUuids'', JArr []),
                     (''parametersCount'', JNum 0),
                     (''defaultParameter'', JStr []),
                     (''chunkStrategy'', JStr ''standard''),
                     (''chunkType'', JStr ''fallback''),
                     (''hasAreaInfo'', JBool True)],
             readableText =
               Some ''System temporarily unavailable. Please check the configuration and try again.''\<rparr>
      in \<lparr>documents = [fallBack], partitionMap = []\<rparr>)"

text \<open>
  \<^verbatim>\<open>v?.length\<close>: the length of an array or a string, the property of that name of an
  object, \<^verbatim>\<open>undefined\<close> otherwise.
\<close>

fun lengthOf :: "json \<Rightarrow> json" where
  "lengthOf (JArr xs) = JNum (int (length xs))"
| "lengthOf (JStr s) = JNum (int (length s))"
| "lengthOf (JObj kvs) = getProp (JObj kvs) ''length''"
| "lengthOf v = JUndefined"

text \<open>
  The three counts of the statistics, over the endpoints:
  \<^verbatim>\<open>ep.category === 18\<close>, \<^verbatim>\<open>[11, 12, 15].includes(ep.category)\<close> and
  \<^verbatim>\<open>[0, 1, 2].includes(ep.category)\<close>. Reading \<^verbatim>\<open>ep.category\<close> throws when \<^verbatim>\<open>ep\<close> is
  \<^verbatim>\<open>null\<close>, and \<^verbatim>\<open>jsonContent.endpoints.filter\<close> throws when the endpoints are not an
  array; \<open>statistics\<close> has both branches.
\<close>

definition isSensor :: "json \<Rightarrow> bool" where
  "isSensor ep = (getProp ep ''category'' = JNum 18)"

definition isActuator :: "json \<Rightarrow> bool" where
  "isActuator ep = arrIncludes [JNum 11, JNum 12, JNum 15] (getProp ep ''category'')"

definition isController :: "json \<Rightarrow> bool" where
  "isController ep = arrIncludes [JNum 0, JNum 1, JNum 2] (getProp ep ''category'')"

definition sensorCount :: "json list \<Rightarrow> nat" where
  "sensorCount endpoints = length (filter isSensor endpoints)"

definition actuatorCount :: "json list \<Rightarrow> nat" where
  "actuatorCount endpoints = length (filter isActuator endpoints)"

definition controllerCount :: "json list \<Rightarrow> nat" where
  "controllerCount endpoints = length (filter isController endpoints)"

definition statistics :: "json \<Rightarrow> (string \<times> string) list \<Rightarrow> error + json" where
  "statistics jsonContent globalPartitionMap =
     (case getProp jsonContent ''endpoints'' of
        JArr endpoints \<Rightarrow>
          if list_ex nullish endpoints then Inl TypeError
          else Inr (JObj
            [(''totalEndpoints'', orElse (lengthOf (JArr endpoints)) (JNum 0)),
             (''totalAreas'', orElse (lengthOf (getProp jsonContent ''areas'')) (JNum 0)),
             (''totalPartitions'', JNum (int (length globalPartitionMap))),
             (''sensorCount'', orElse (JNum (int (sensorCount endpoints))) (JNum 0)),
             (''actuatorCount'', orElse (JNum (int (actuatorCount endpoints))) (JNum 0)),
             (''controllerCount'', orElse (JNum (int (controllerCount endpoints))) (JNum 0))])
      | _ \<Rightarrow> Inl TypeError)"

text \<open>\<^verbatim>\<open>jsonContent.metadata?.k\<close>.\<close>

definition metadataProp :: "json \<Rightarrow> string \<Rightarrow> json" where
  "metadataProp jsonContent k = getProp (getProp jsonContent ''metadata'') k"

definition mainDocument ::
  "Env \<Rightarrow> json \<Rightarrow> json \<Rightarrow> (string \<times> string) list \<Rightarrow> bool \<Rightarrow> ExtendDocument" where
  "mainDocument env jsonContent stats globalPartitionMap hasValidAreas =
     \<lparr>pageContent =
        JSON_stringify env
          (JObj [(''type'', JStr ''installation-config''),
                 (''metadata'', orElse (getProp jsonContent ''metadata'') (JObj [])),
                 (''statistics'', stats),
                 (''endpoints'', getProp jsonContent ''endpoints''),
                 (''areas'', getProp jsonContent ''areas''),
                 (''globalPartitionMap'',
                    JObj (map (\<lambda>(k, v). (k, JStr v)) globalPartitionMap))]),
      metadata =
        JObj [(''source'', JStr targetFile),
              (''loc'', JStr filePath),
              (''type'', JStr ''installation-config''),
              (''isValid'', JBool True),
              (''timestamp'', JStr (now env)),
              (''name'', metadataProp jsonContent ''name''),
              (''chunkType'', JStr ''summary''),
              (''installationName'',
                 orElse (metadataProp jsonContent ''name'') (JStr ''installation-config'')),
              (''revision'', metadataProp jsonContent ''revision''),
              (''deviceType'', JStr ''installation''),
              (''totalEndpoints'',
                 orElse (lengthOf (getProp jsonContent ''endpoints'')) (JNum 0)),
              (''totalAreas'', orElse (lengthOf (getProp jsonContent ''areas'')) (JNum 0)),
              (''hasPartitions'', JBool (length globalPartitionMap > 0)),
              (''hasAreaInfo'', JBool hasValidAreas),
              (''major'', metadataProp jsonContent ''major''),
              (''minor'', metadataProp jsonContent ''minor'')],
      readableText = None\<rparr>"

text \<open>
  \<^verbatim>\<open>loadDocumentsJSON()\<close>. Each \<^verbatim>\<open>throw\<close> is an \<open>Inl\<close>; an exception of a called function
  is not caught and leaves the loader as it is. \<open>synthesize\<close> is the part of the function
  after the check of the endpoints. It starts with the message
  \<^verbatim>\<open>`Data structure: ... ${jsonContent.areas?.length || 0} areas`\<close>, which throws when
  that value has no text.
\<close>

text \<open>\<^verbatim>\<open>Array.isArray(v) && v.length > 0\<close>, of the endpoints and of the areas.\<close>

definition hasValidSequence :: "json \<Rightarrow> bool" where
  "hasValidSequence v = (case v of JArr xs \<Rightarrow> length xs > 0 | _ \<Rightarrow> False)"

definition synthesize :: "Env \<Rightarrow> json \<Rightarrow> error + LoadDocumentResult" where
  "synthesize env jsonContent =
     (let hasValidAreas = hasValidSequence (getProp jsonContent ''areas'') in
      if toStringThrows (orElse (lengthOf (getProp jsonContent ''areas'')) (JNum 0))
      then Inl TypeError
      else
      case buildGlobalPartitionMap env jsonContent of
        Inl e \<Rightarrow> Inl e
      | Inr globalPartitionMap \<Rightarrow>
          (case (if hasValidAreas then buildAreaPartitionMaps jsonContent else Inr []) of
             Inl e \<Rightarrow> Inl e
           | Inr areaPartitionMaps \<Rightarrow>
               (case (if hasValidAreas
                      then buildEndpointAreaRelations (toNumber env) jsonContent
                             areaPartitionMaps
                      else Inr []) of
                  Inl e \<Rightarrow> Inl e
                | Inr endpointAreaRelations \<Rightarrow>
                    (case statistics jsonContent globalPartitionMap of
                       Inl e \<Rightarrow> Inl e
                     | Inr stats \<Rightarrow>
                         Inr \<lparr>documents =
                                [mainDocument env jsonContent stats globalPartitionMap
                                   hasValidAreas],
                              partitionMap = globalPartitionMap\<rparr>))))"

definition loadDocumentsJSON :: "Env \<Rightarrow> error + LoadDocumentResult" where
  "loadDocumentsJSON env =
     (case readFile env of
        None \<Rightarrow> Inl (Error ''Execution blocked: file doesn't exist'')
      | Some rawContent \<Rightarrow>
          if \<not> truthy (JStr rawContent) \<or> length (trim rawContent) = 0 then
            Inl (Error ''Execution blocked: file contents empty.'')
          else
            (case JSON_parse env rawContent of
               None \<Rightarrow> Inl (Error ''Invalid JSON format in configuration'')
             | Some jsonContent \<Rightarrow>
                 if \<not> truthy jsonContent \<or> \<not> typeofObject jsonContent then
                   Inl (Error ''Invalid JSON structure: root must be an object'')
                 else if \<not> hasValidSequence (getProp jsonContent ''endpoints'') then
                   Inr (getFallbackDocument env ''No valid endpoints in configuration'')
                 else synthesize env jsonContent))"

section \<open>Theorems on the relevance filter\<close>

lemma scoreOf_acc:
  "foldl (\<lambda>score tm. if strIncludes content tm then score + 1 else score) n terms
     = n + length (filter (strIncludes content) terms)"
  by (induction terms arbitrary: n) auto

lemma scoreOf_count: "scoreOf content terms = length (filter (strIncludes content) terms)"
  by (simp add: scoreOf_def scoreOf_acc)

text \<open>
  C10. For every candidate list, query and threshold the filter returns a subsequence of
  its input: the retained elements are elements of the input, in the order of the input,
  none of them more often than in the input, and there are at most as many as in the
  input.
\<close>

theorem filter_is_subsequence:
  "subseq (filterByContentRelevance rnd docs query threshold) docs
   \<and> set (filterByContentRelevance rnd docs query threshold) \<subseteq> set docs
   \<and> count_list (filterByContentRelevance rnd docs query threshold) d \<le> count_list docs d
   \<and> length (filterByContentRelevance rnd docs query threshold) \<le> length docs"
proof -
  let ?P = "\<lambda>doc. numGe (relevanceScore rnd query doc) threshold"
  have "count_list (filter ?P docs) d \<le> count_list docs d"
    by (induction docs) auto
  then show ?thesis
    by (simp add: filterByContentRelevance_def)
qed

theorem filter_is_subsequence_witness:
  "filterByContentRelevance (\<lambda>q. q)
     [\<lparr>pageContent = ''Kitchen lamp'', metadata = JNull\<rparr>,
      \<lparr>pageContent = ''Garage door'', metadata = JNull\<rparr>] ''the LAMP'' (Finite (3 / 10))
     = [\<lparr>pageContent = ''Kitchen lamp'', metadata = JNull\<rparr>]
   \<and> subseq [\<lparr>pageContent = ''Kitchen lamp'', metadata = JNull\<rparr>]
       [\<lparr>pageContent = ''Kitchen lamp'', metadata = JNull\<rparr>,
        \<lparr>pageContent = ''Garage door'', metadata = JNull\<rparr>]"
proof -
  have run: "filterByContentRelevance (\<lambda>q. q)
     [\<lparr>pageContent = ''Kitchen lamp'', metadata = JNull\<rparr>,
      \<lparr>pageContent = ''Garage door'', metadata = JNull\<rparr>] ''the LAMP'' (Finite (3 / 10))
     = [\<lparr>pageContent = ''Kitchen lamp'', metadata = JNull\<rparr>]"
    by (simp add: filterByContentRelevance_def relevanceScore_def queryTerms_def
        splitWhitespace_def toLowerCase_def toLowerChar_def isWhiteSpace_def scoreOf_def
        numDiv_def)
  show ?thesis
    using filter_is_subsequence [of "\<lambda>q. q"
        "[\<lparr>pageContent = ''Kitchen lamp'', metadata = JNull\<rparr>,
          \<lparr>pageContent = ''Garage door'', metadata = JNull\<rparr>]" "''the LAMP''" "Finite (3 / 10)"]
    by (simp only: run)
qed

lemma queryTerms_empty_iff:
  "queryTerms query = [] \<longleftrightarrow>
     (\<forall>t \<in> set (splitWhitespace (toLowerCase query)). length t \<le> 2)"
  by (auto simp: queryTerms_def filter_empty_conv not_less)

lemma score_le_terms: "scoreOf content terms \<le> length terms"
  by (simp add: scoreOf_count)

lemma relevanceScore_cases:
  "relevanceScore rnd query d =
     (if queryTerms query = [] then NaN
      else Finite (rnd (of_nat (scoreOf (toLowerCase (pageContent d)) (queryTerms query))
                        / of_nat (length (queryTerms query)))))"
  by (cases "queryTerms query = []")
     (simp_all add: relevanceScore_def numDiv_def Let_def scoreOf_def)

text \<open>
  C6 as stated fails: the code has no case for a query without usable terms. At the
  query \<^verbatim>\<open>"is it"\<close> the score of a candidate is the quotient 0 / 0, which is \<open>NaN\<close>, and
  this value is what the callback compares with the threshold.
\<close>

theorem zero_terms_score_counterexample:
  "queryTerms ''is it'' = []
   \<and> relevanceScore (\<lambda>q. q) ''is it'' \<lparr>pageContent = ''is it on'', metadata = JNull\<rparr> = NaN"
  by (simp add: relevanceScore_def queryTerms_def splitWhitespace_def toLowerCase_def
      toLowerChar_def isWhiteSpace_def scoreOf_def numDiv_def)

text \<open>
  C6, amended. For every query whose white-space separated pieces all have length at
  most 2, the score of every candidate is \<open>NaN\<close> (the quotient 0 / 0); the comparison of
  \<open>NaN\<close> with the threshold is false whatever the threshold, so the filter rejects every
  candidate.
\<close>

theorem zero_terms_rejects_all:
  fixes doc :: "'a Document_scheme" and docs :: "'a Document_scheme list"
  assumes "\<forall>t \<in> set (splitWhitespace (toLowerCase query)). length t \<le> 2"
  shows "relevanceScore rnd query doc = NaN
         \<and> filterByContentRelevance rnd docs query threshold = []"
proof -
  from assms have "queryTerms query = []"
    by (simp add: queryTerms_empty_iff)
  then have nan: "relevanceScore rnd query d = NaN" for d :: "'a Document_scheme"
    by (simp add: relevanceScore_cases)
  have "filterByContentRelevance rnd docs query threshold = []"
    unfolding filterByContentRelevance_def by (simp add: nan)
  with nan show ?thesis by simp
qed

theorem zero_terms_rejects_all_witness:
  "splitWhitespace (toLowerCase ''is it'') = [''is'', ''it'']
   \<and> relevanceScore (\<lambda>q. q) ''is it'' \<lparr>pageContent = ''is it on'', metadata = JNull\<rparr> = NaN
   \<and> filterByContentRelevance (\<lambda>q. q) [\<lparr>pageContent = ''is it on'', metadata = JNull\<rparr>]
        ''is it'' (Finite 0) = []"
proof -
  have h: "\<forall>t \<in> set (splitWhitespace (toLowerCase ''is it'')). length t \<le> 2"
    by (simp add: splitWhitespace_def toLowerCase_def toLowerChar_def isWhiteSpace_def)
  have s: "splitWhitespace (toLowerCase ''is it'') = [''is'', ''it'']"
    by (simp add: splitWhitespace_def toLowerCase_def toLowerChar_def isWhiteSpace_def)
  show ?thesis
    using s zero_terms_rejects_all [OF h, of "\<lambda>q. q"
        "\<lparr>pageContent = ''is it on'', metadata = JNull\<rparr>"
        "[\<lparr>pageContent = ''is it on'', metadata = JNull\<rparr>]" "Finite 0"]
    by simp
qed

text \<open>
  C7 as stated fails at a query without usable terms: the candidate contains every
  term of the query (there is none), its score is \<open>NaN\<close> and not 1, and the filter with
  threshold 0 returns the empty sequence, not its input.
\<close>

theorem threshold_zero_counterexample:
  "relevanceScore (\<lambda>q. q) ''is it'' \<lparr>pageContent = ''is it on'', metadata = JNull\<rparr> \<noteq> Finite 1
   \<and> filterByContentRelevance (\<lambda>q. q) [\<lparr>pageContent = ''is it on'', metadata = JNull\<rparr>]
        ''is it'' (Finite 0) \<noteq> [\<lparr>pageContent = ''is it on'', metadata = JNull\<rparr>]"
  by (simp add: filterByContentRelevance_def relevanceScore_def queryTerms_def
      splitWhitespace_def toLowerCase_def toLowerChar_def isWhiteSpace_def scoreOf_def
      numDiv_def)

lemma relevance_scores_parts:
  fixes doc :: "'a Document_scheme" and docs :: "'a Document_scheme list"
  assumes "rounding rnd"
  shows "queryTerms query \<noteq> [] \<longrightarrow>
           ((\<forall>t \<in> set (queryTerms query). strIncludes (toLowerCase (pageContent doc)) t)
              \<longrightarrow> relevanceScore rnd query doc = Finite 1)
         \<and> ((\<forall>t \<in> set (queryTerms query). \<not> strIncludes (toLowerCase (pageContent doc)) t)
              \<longrightarrow> relevanceScore rnd query doc = Finite 0)
         \<and> filterByContentRelevance rnd docs query (Finite 0) = docs"
    and "1 < t \<longrightarrow> filterByContentRelevance rnd docs query (Finite t) = []"
proof -
  from assms have m: "mono rnd" and r0: "rnd 0 = 0" and r1: "rnd 1 = 1"
    by (simp_all add: rounding_def)
  let ?n = "length (queryTerms query)"
  have quot: "0 \<le> (of_nat (scoreOf c (queryTerms query)) / of_nat ?n :: rat)
              \<and> (of_nat (scoreOf c (queryTerms query)) / of_nat ?n :: rat) \<le> 1" for c
    using score_le_terms [of c "queryTerms query"]
    by (cases "?n = 0") (simp_all add: divide_le_eq)
  have lo: "0 \<le> rnd (of_nat (scoreOf c (queryTerms query)) / of_nat ?n)" for c
    using monoD [OF m conjunct1 [OF quot [of c]]] by (simp add: r0)
  have hi: "rnd (of_nat (scoreOf c (queryTerms query)) / of_nat ?n) \<le> 1" for c
    using monoD [OF m conjunct2 [OF quot [of c]]] by (simp add: r1)
  show "queryTerms query \<noteq> [] \<longrightarrow>
           ((\<forall>t \<in> set (queryTerms query). strIncludes (toLowerCase (pageContent doc)) t)
              \<longrightarrow> relevanceScore rnd query doc = Finite 1)
         \<and> ((\<forall>t \<in> set (queryTerms query). \<not> strIncludes (toLowerCase (pageContent doc)) t)
              \<longrightarrow> relevanceScore rnd query doc = Finite 0)
         \<and> filterByContentRelevance rnd docs query (Finite 0) = docs"
  proof
    assume ne: "queryTerms query \<noteq> []"
    have all: "relevanceScore rnd query doc = Finite 1"
      if "\<forall>t \<in> set (queryTerms query). strIncludes (toLowerCase (pageContent doc)) t"
    proof -
      from that have "scoreOf (toLowerCase (pageContent doc)) (queryTerms query) = ?n"
        by (simp add: scoreOf_count)
      with ne show ?thesis
        by (simp add: relevanceScore_cases r1)
    qed
    have none: "relevanceScore rnd query doc = Finite 0"
      if "\<forall>t \<in> set (queryTerms query). \<not> strIncludes (toLowerCase (pageContent doc)) t"
    proof -
      from that have "filter (strIncludes (toLowerCase (pageContent doc))) (queryTerms query) = []"
        by (simp add: filter_empty_conv)
      then have "scoreOf (toLowerCase (pageContent doc)) (queryTerms query) = 0"
        by (simp add: scoreOf_count)
      with ne show ?thesis
        by (simp add: relevanceScore_cases r0)
    qed
    have "numGe (relevanceScore rnd query d) (Finite 0)" for d :: "'a Document_scheme"
      using ne lo by (simp add: relevanceScore_cases)
    then have "filterByContentRelevance rnd docs query (Finite 0) = docs"
      by (simp add: filterByContentRelevance_def)
    with all none show "((\<forall>t \<in> set (queryTerms query). strIncludes (toLowerCase (pageContent doc)) t)
              \<longrightarrow> relevanceScore rnd query doc = Finite 1)
         \<and> ((\<forall>t \<in> set (queryTerms query). \<not> strIncludes (toLowerCase (pageContent doc)) t)
              \<longrightarrow> relevanceScore rnd query doc = Finite 0)
         \<and> filterByContentRelevance rnd docs query (Finite 0) = docs"
      by blast
  qed
  show "1 < t \<longrightarrow> filterByContentRelevance rnd docs query (Finite t) = []"
  proof
    assume t: "1 < t"
    have "\<not> numGe (relevanceScore rnd query d) (Finite t)" for d :: "'a Document_scheme"
      using hi [of "toLowerCase (pageContent d)"] t
      by (simp add: relevanceScore_cases)
    then show "filterByContentRelevance rnd docs query (Finite t) = []"
      by (simp add: filterByContentRelevance_def)
  qed
qed

text \<open>
  C7, amended. For every query with at least one piece longer than 2 characters: a
  candidate whose lower-cased payload contains every such piece scores exactly 1, one
  that contains none of them scores exactly 0, and the filter with threshold 0 returns
  its input unchanged. For every query, the filter with a threshold above 1 (the double
  1.01 is one) returns the empty sequence.
\<close>

theorem relevance_scores_and_thresholds:
  fixes doc :: "'a Document_scheme" and docs :: "'a Document_scheme list"
  assumes "rounding rnd"
  shows "(queryTerms query \<noteq> [] \<longrightarrow>
            ((\<forall>t \<in> set (queryTerms query). strIncludes (toLowerCase (pageContent doc)) t)
               \<longrightarrow> relevanceScore rnd query doc = Finite 1)
          \<and> ((\<forall>t \<in> set (queryTerms query). \<not> strIncludes (toLowerCase (pageContent doc)) t)
               \<longrightarrow> relevanceScore rnd query doc = Finite 0)
          \<and> filterByContentRelevance rnd docs query (Finite 0) = docs)
         \<and> (1 < t \<longrightarrow> filterByContentRelevance rnd docs query (Finite t) = [])"
  using relevance_scores_parts(1) [OF assms, where query = query and doc = doc and docs = docs]
    relevance_scores_parts(2) [OF assms, where t = t and docs = docs and query = query]
  by blast

theorem relevance_scores_and_thresholds_witness:
  "rounding (\<lambda>q. q)
   \<and> queryTerms ''kitchen LAMP'' = [''kitchen'', ''lamp'']
   \<and> relevanceScore (\<lambda>q. q) ''kitchen LAMP'' \<lparr>pageContent = ''Kitchen lamp'', metadata = JNull\<rparr>
       = Finite 1
   \<and> relevanceScore (\<lambda>q. q) ''kitchen LAMP'' \<lparr>pageContent = ''Garage door'', metadata = JNull\<rparr>
       = Finite 0
   \<and> filterByContentRelevance (\<lambda>q. q)
        [\<lparr>pageContent = ''Kitchen lamp'', metadata = JNull\<rparr>,
         \<lparr>pageContent = ''Garage door'', metadata = JNull\<rparr>] ''kitchen LAMP'' (Finite 0)
       = [\<lparr>pageContent = ''Kitchen lamp'', metadata = JNull\<rparr>,
          \<lparr>pageContent = ''Garage door'', metadata = JNull\<rparr>]
   \<and> filterByContentRelevance (\<lambda>q. q)
        [\<lparr>pageContent = ''Kitchen lamp'', metadata = JNull\<rparr>,
         \<lparr>pageContent = ''Garage door'', metadata = JNull\<rparr>] ''kitchen LAMP''
        (Finite (4548635623644201 / 4503599627370496))
       = []"
proof -
  have r: "rounding (\<lambda>q. q)"
    by (simp add: rounding_def mono_def)
  have q: "queryTerms ''kitchen LAMP'' = [''kitchen'', ''lamp'']"
    by (simp add: queryTerms_def splitWhitespace_def toLowerCase_def toLowerChar_def
        isWhiteSpace_def)
  have a: "\<forall>t \<in> set (queryTerms ''kitchen LAMP'').
             strIncludes (toLowerCase (pageContent \<lparr>pageContent = ''Kitchen lamp'', metadata = JNull\<rparr>)) t"
    by (simp add: q toLowerCase_def toLowerChar_def)
  have b: "\<forall>t \<in> set (queryTerms ''kitchen LAMP'').
             \<not> strIncludes (toLowerCase (pageContent \<lparr>pageContent = ''Garage door'', metadata = JNull\<rparr>)) t"
    by (simp add: q toLowerCase_def toLowerChar_def)
  have t: "(1::rat) < 4548635623644201 / 4503599627370496"
    by simp
  show ?thesis
    using r q a b t
      relevance_scores_and_thresholds [OF r, where query = "''kitchen LAMP''"
        and doc = "\<lparr>pageContent = ''Kitchen lamp'', metadata = JNull\<rparr>"
        and docs = "[\<lparr>pageContent = ''Kitchen lamp'', metadata = JNull\<rparr>,
          \<lparr>pageContent = ''Garage door'', metadata = JNull\<rparr>]"
        and t = "4548635623644201 / 4503599627370496"]
      relevance_scores_and_thresholds [OF r, where query = "''kitchen LAMP''"
        and doc = "\<lparr>pageContent = ''Garage door'', metadata = JNull\<rparr>"
        and docs = "[\<lparr>pageContent = ''Kitchen lamp'', metadata = JNull\<rparr>,
          \<lparr>pageContent = ''Garage door'', metadata = JNull\<rparr>]"
        and t = "4548635623644201 / 4503599627370496"]
    by simp
qed

section \<open>Theorems on the area maps\<close>

lemma partitionsLoop_result:
  "partitionsLoop area ps acc =
     (if toStringThrows (getProp area ''name'')
         \<and> list_ex (\<lambda>p. \<not> (truthy p \<and> truthy (partitionUuid p) \<and> truthy (partitionName p))) ps
      then Inl TypeError
      else Inr (acc @ map (\<lambda>p. \<lparr>uuid = partitionUuid p, name = partitionName p\<rparr>)
                        (filter (\<lambda>p. truthy p \<and> truthy (partitionUuid p) \<and> truthy (partitionName p))
                           ps)))"
  by (induction ps arbitrary: acc) auto

lemma areaMapOf_result:
  "areaMapOf area =
     (if toStringThrows (getProp area ''name'')
         \<and> list_ex (\<lambda>p. \<not> (truthy p \<and> truthy (partitionUuid p) \<and> truthy (partitionName p)))
              (case getProp area ''partitions'' of JArr ps \<Rightarrow> ps | _ \<Rightarrow> [])
      then Inl TypeError
      else Inr \<lparr>areaUuid = getProp area ''uuid'', areaName = getProp area ''name'',
                partitions =
                  map (\<lambda>p. \<lparr>uuid = partitionUuid p, name = partitionName p\<rparr>)
                    (filter (\<lambda>p. truthy p \<and> truthy (partitionUuid p) \<and> truthy (partitionName p))
                       (case getProp area ''partitions'' of JArr ps \<Rightarrow> ps | _ \<Rightarrow> []))\<rparr>)"
  by (cases "getProp area ''partitions''") (simp_all add: areaMapOf_def partitionsLoop_result)

lemma areasLoop_result:
  "areasLoop areas maps =
     maps @
     map (\<lambda>area.
            \<lparr>areaUuid = getProp area ''uuid'', areaName = getProp area ''name'',
             partitions =
               map (\<lambda>p. \<lparr>uuid = partitionUuid p, name = partitionName p\<rparr>)
                 (filter (\<lambda>p. truthy p \<and> truthy (partitionUuid p) \<and> truthy (partitionName p))
                    (case getProp area ''partitions'' of JArr ps \<Rightarrow> ps | _ \<Rightarrow> []))\<rparr>)
       (filter (\<lambda>area.
                  truthy area \<and> typeofObject area
                  \<and> truthy (getProp area ''uuid'') \<and> truthy (getProp area ''name'')
                  \<and> \<not> (toStringThrows (getProp area ''name'')
                        \<and> list_ex (\<lambda>p. \<not> (truthy p \<and> truthy (partitionUuid p)
                                            \<and> truthy (partitionName p)))
                             (case getProp area ''partitions'' of JArr ps \<Rightarrow> ps | _ \<Rightarrow> [])))
          areas)"
proof (induction areas arbitrary: maps)
  case Nil
  show ?case by simp
next
  case (Cons area areas)
  show ?case
    by (simp add: Cons.IH areaMapOf_result)
qed

text \<open>
  C5 as stated fails: the second guard of the loop is \<^verbatim>\<open>!area.uuid || !area.name\<close>, so an
  area that lacks one of the two is skipped. The area below is an object and has a uuid,
  and it is left out of the maps because it has no name.
\<close>

theorem area_with_uuid_only_counterexample:
  "truthy (JObj [(''uuid'', JStr ''a1'')]) \<and> typeofObject (JObj [(''uuid'', JStr ''a1'')])
   \<and> truthy (getProp (JObj [(''uuid'', JStr ''a1'')]) ''uuid'')
   \<and> buildAreaPartitionMaps (JObj [(''areas'', JArr [JObj [(''uuid'', JStr ''a1'')]])]) = Inr []"
  by (simp add: buildAreaPartitionMaps_def)

text \<open>
  C5, amended. An area entry is skipped exactly when it is falsy or not of type object,
  when it lacks its uuid or its name (one of them missing is enough), or when a warning
  about one of its partition entries (a falsy entry, or one without uuid or name) cannot
  be written because the name of the area has no text: the exception is caught and the
  area is not pushed. Every other entry contributes exactly one map, with its complete
  partition entries, and the maps come in the order of the areas, with nothing in the
  place of a skipped area.
\<close>

theorem area_maps_of_valid_areas:
  assumes "getProp jsonContent ''areas'' = JArr areas"
  shows "buildAreaPartitionMaps jsonContent =
     Inr (map (\<lambda>area.
            \<lparr>areaUuid = getProp area ''uuid'', areaName = getProp area ''name'',
             partitions =
               map (\<lambda>p. \<lparr>uuid = partitionUuid p, name = partitionName p\<rparr>)
                 (filter (\<lambda>p. truthy p \<and> truthy (partitionUuid p) \<and> truthy (partitionName p))
                    (case getProp area ''partitions'' of JArr ps \<Rightarrow> ps | _ \<Rightarrow> []))\<rparr>)
       (filter (\<lambda>area.
                  truthy area \<and> typeofObject area
                  \<and> truthy (getProp area ''uuid'') \<and> truthy (getProp area ''name'')
                  \<and> \<not> (toStringThrows (getProp area ''name'')
                        \<and> list_ex (\<lambda>p. \<not> (truthy p \<and> truthy (partitionUuid p)
                                            \<and> truthy (partitionName p)))
                             (case getProp area ''partitions'' of JArr ps \<Rightarrow> ps | _ \<Rightarrow> [])))
          areas))"
proof -
  from assms have "\<not> nullish jsonContent"
    by (cases jsonContent) auto
  with assms show ?thesis
    by (simp add: buildAreaPartitionMaps_def areasLoop_result)
qed

theorem area_maps_of_valid_areas_witness:
  "buildAreaPartitionMaps (JObj [(''areas'', JArr
     [JObj [(''uuid'', JStr ''a1''), (''name'', JStr ''Kitchen''),
            (''partitions'',
               JArr [JStr ''p1-0123456789'', JNull,
                     JObj [(''uuid'', JStr ''p2''), (''name'', JStr ''Main'')],
                     JObj [(''uuid'', JStr ''p3'')]])],
      JStr ''junk'',
      JObj [(''name'', JStr ''Cellar'')],
      JObj [(''uuid'', JStr ''a3''), (''name'', JObj [(''toString'', JNull)]),
            (''partitions'', JArr [JNull])],
      JObj [(''uuid'', JStr ''a4''), (''name'', JStr ''Hall'')]])])
   = Inr [\<lparr>areaUuid = JStr ''a1'', areaName = JStr ''Kitchen'',
            partitions =
              [\<lparr>uuid = JStr ''p1-0123456789'', name = JStr ''Partition_p1-01234''\<rparr>,
               \<lparr>uuid = JStr ''p2'', name = JStr ''Main''\<rparr>]\<rparr>,
          \<lparr>areaUuid = JStr ''a4'', areaName = JStr ''Hall'', partitions = []\<rparr>]"
  using area_maps_of_valid_areas [of
      "JObj [(''areas'', JArr
         [JObj [(''uuid'', JStr ''a1''), (''name'', JStr ''Kitchen''),
                (''partitions'',
                   JArr [JStr ''p1-0123456789'', JNull,
                         JObj [(''uuid'', JStr ''p2''), (''name'', JStr ''Main'')],
                         JObj [(''uuid'', JStr ''p3'')]])],
          JStr ''junk'',
          JObj [(''name'', JStr ''Cellar'')],
          JObj [(''uuid'', JStr ''a3''), (''name'', JObj [(''toString'', JNull)]),
                (''partitions'', JArr [JNull])],
          JObj [(''uuid'', JStr ''a4''), (''name'', JStr ''Hall'')]])]"
      "[JObj [(''uuid'', JStr ''a1''), (''name'', JStr ''Kitchen''),
                (''partitions'',
                   JArr [JStr ''p1-0123456789'', JNull,
                         JObj [(''uuid'', JStr ''p2''), (''name'', JStr ''Main'')],
                         JObj [(''uuid'', JStr ''p3'')]])],
          JStr ''junk'',
          JObj [(''name'', JStr ''Cellar'')],
          JObj [(''uuid'', JStr ''a3''), (''name'', JObj [(''toString'', JNull)]),
                (''partitions'', JArr [JNull])],
          JObj [(''uuid'', JStr ''a4''), (''name'', JStr ''Hall'')]]"]
  by (simp add: partitionUuid_def partitionName_def)

section \<open>Theorems on the statistics\<close>

lemma counts_disjoint:
  "\<not> (isSensor ep \<and> isActuator ep) \<and> \<not> (isSensor ep \<and> isController ep)
   \<and> \<not> (isActuator ep \<and> isController ep)"
  by (cases "getProp ep ''category''")
     (auto simp: isSensor_def isActuator_def isController_def arrIncludes_def sameValueZero_def)

lemma counts_sum:
  "sensorCount eps + actuatorCount eps + controllerCount eps
     = length (filter (\<lambda>ep. isSensor ep \<or> isActuator ep \<or> isController ep) eps)"
  unfolding sensorCount_def actuatorCount_def controllerCount_def
  using counts_disjoint by (induction eps) auto

lemma orElse_count: "orElse (JNum (int n)) (JNum 0) = JNum (int n)"
  by (simp add: orElse_def)

text \<open>
  C9. Whenever the statistics are computed, the three tests on the category (18; one of
  11, 12, 15; one of 0, 1, 2) exclude each other, the three counts add up to the number
  of endpoints that pass one of the tests, and so to at most \<open>totalEndpoints\<close>: an
  endpoint whose category is outside the three sets is in none of the counts.
\<close>

theorem category_counts_bounded:
  assumes "statistics jsonContent globalPartitionMap = Inr stats"
  shows "\<exists>endpoints.
           getProp jsonContent ''endpoints'' = JArr endpoints
           \<and> getProp stats ''totalEndpoints'' = JNum (int (length endpoints))
           \<and> getProp stats ''sensorCount'' = JNum (int (sensorCount endpoints))
           \<and> getProp stats ''actuatorCount'' = JNum (int (actuatorCount endpoints))
           \<and> getProp stats ''controllerCount'' = JNum (int (controllerCount endpoints))
           \<and> sensorCount endpoints + actuatorCount endpoints + controllerCount endpoints
               = length (filter (\<lambda>ep. isSensor ep \<or> isActuator ep \<or> isController ep) endpoints)
           \<and> sensorCount endpoints + actuatorCount endpoints + controllerCount endpoints
               \<le> length endpoints
           \<and> (\<forall>ep. \<not> (isSensor ep \<and> isActuator ep) \<and> \<not> (isSensor ep \<and> isController ep)
                  \<and> \<not> (isActuator ep \<and> isController ep))"
proof -
  from assms obtain endpoints where
    eps: "getProp jsonContent ''endpoints'' = JArr endpoints" and
    st: "stats = JObj
            [(''totalEndpoints'', orElse (lengthOf (JArr endpoints)) (JNum 0)),
             (''totalAreas'', orElse (lengthOf (getProp jsonContent ''areas'')) (JNum 0)),
             (''totalPartitions'', JNum (int (length globalPartitionMap))),
             (''sensorCount'', orElse (JNum (int (sensorCount endpoints))) (JNum 0)),
             (''actuatorCount'', orElse (JNum (int (actuatorCount endpoints))) (JNum 0)),
             (''controllerCount'', orElse (JNum (int (controllerCount endpoints))) (JNum 0))]"
    by (auto simp: statistics_def split: json.splits if_splits)
  have le: "sensorCount endpoints + actuatorCount endpoints + controllerCount endpoints
              \<le> length endpoints"
    by (simp add: counts_sum)
  show ?thesis
    using eps le counts_disjoint by (simp add: st orElse_count counts_sum orElse_def)
qed

theorem category_counts_bounded_witness:
  "statistics
     (JObj [(''endpoints'',
        JArr [JObj [(''category'', JNum 18)], JObj [(''category'', JNum 11)],
              JObj [(''category'', JNum 0)], JObj [(''category'', JNum 7)], JStr ''x''])]) []
     = Inr (JObj
         [(''totalEndpoints'', JNum 5), (''totalAreas'', JNum 0),
          (''totalPartitions'', JNum 0), (''sensorCount'', JNum 1),
          (''actuatorCount'', JNum 1), (''controllerCount'', JNum 1)])
   \<and> sensorCount [JObj [(''category'', JNum 18)], JObj [(''category'', JNum 11)],
              JObj [(''category'', JNum 0)], JObj [(''category'', JNum 7)], JStr ''x'']
       + actuatorCount [JObj [(''category'', JNum 18)], JObj [(''category'', JNum 11)],
              JObj [(''category'', JNum 0)], JObj [(''category'', JNum 7)], JStr ''x'']
       + controllerCount [JObj [(''category'', JNum 18)], JObj [(''category'', JNum 11)],
              JObj [(''category'', JNum 0)], JObj [(''category'', JNum 7)], JStr ''x'']
       \<le> 5"
proof -
  have run: "statistics
     (JObj [(''endpoints'',
        JArr [JObj [(''category'', JNum 18)], JObj [(''category'', JNum 11)],
              JObj [(''category'', JNum 0)], JObj [(''category'', JNum 7)], JStr ''x''])]) []
     = Inr (JObj
         [(''totalEndpoints'', JNum 5), (''totalAreas'', JNum 0),
          (''totalPartitions'', JNum 0), (''sensorCount'', JNum 1),
          (''actuatorCount'', JNum 1), (''controllerCount'', JNum 1)])"
    by (simp add: statistics_def orElse_def sensorCount_def actuatorCount_def
        controllerCount_def isSensor_def isActuator_def isController_def arrIncludes_def
        sameValueZero_def)
  show ?thesis
    using category_counts_bounded [OF run] by (simp add: run)
qed

section \<open>Theorems on the relations\<close>




















section \<open>Theorems on the loader\<close>

lemma trim_nonempty: "trim s \<noteq> [] \<Longrightarrow> s \<noteq> []"
  by (auto simp: trim_def)

lemma fallback_shape:
  "\<exists>d. getFallbackDocument env msg = \<lparr>documents = [d], partitionMap = []\<rparr>
       \<and> getProp (metadata d) ''isValid'' = JBool False
       \<and> getProp (metadata d) ''chunkType'' = JStr ''fallback''"
  by (simp add: getFallbackDocument_def Let_def)

text \<open>
  C2. When the content parses to an object whose \<^verbatim>\<open>endpoints\<close> are missing, not an array
  or an empty array, the loader returns exactly one document, the fallback: its metadata
  has \<^verbatim>\<open>isValid\<close> false and \<^verbatim>\<open>chunkType\<close> \<^verbatim>\<open>"fallback"\<close>, and the partition map returned
  with it is empty.
\<close>

theorem no_endpoints_gives_fallback:
  assumes "readFile env = Some rawContent"
    and "trim rawContent \<noteq> []"
    and "JSON_parse env rawContent = Some (JObj kvs)"
    and "\<And>endpoints. getProp (JObj kvs) ''endpoints'' = JArr endpoints \<Longrightarrow> endpoints = []"
  shows "\<exists>d. loadDocumentsJSON env = Inr \<lparr>documents = [d], partitionMap = []\<rparr>
             \<and> getProp (metadata d) ''isValid'' = JBool False
             \<and> getProp (metadata d) ''chunkType'' = JStr ''fallback''"
proof -
  have "\<not> hasValidSequence (getProp (JObj kvs) ''endpoints'')"
    using assms(4) by (auto simp: hasValidSequence_def split: json.splits)
  then have "loadDocumentsJSON env
               = Inr (getFallbackDocument env ''No valid endpoints in configuration'')"
    using assms(1-3) trim_nonempty [OF assms(2)]
    by (simp add: loadDocumentsJSON_def)
  then show ?thesis
    using fallback_shape [of env "''No valid endpoints in configuration''"] by simp
qed

theorem no_endpoints_gives_fallback_witness:
  \<open>\<exists>d. loadDocumentsJSON
         \<lparr>readFile = Some ''{"endpoints": []}'',
          JSON_parse = (\<lambda>s. if s = ''{"endpoints": []}''
                             then Some (JObj [(''endpoints'', JArr [])]) else None),
          JSON_stringify = (\<lambda>v. []),
          buildGlobalPartitionMap = (\<lambda>v. Inr []),
          now = ''2025-01-01T00:00:00.000Z'',
          random = ''k3x9q2a'',
          toNumber = (\<lambda>v. NaN)\<rparr>
        = Inr \<lparr>documents = [d], partitionMap = []\<rparr>
      \<and> getProp (metadata d) ''isValid'' = JBool False
      \<and> getProp (metadata d) ''chunkType'' = JStr ''fallback''\<close>
proof -
  let ?env = \<open>\<lparr>readFile = Some ''{"endpoints": []}'',
          JSON_parse = (\<lambda>s. if s = ''{"endpoints": []}''
                             then Some (JObj [(''endpoints'', JArr [])]) else None),
          JSON_stringify = (\<lambda>v. []),
          buildGlobalPartitionMap = (\<lambda>v. Inr []),
          now = ''2025-01-01T00:00:00.000Z'',
          random = ''k3x9q2a'',
          toNumber = (\<lambda>v. NaN)\<rparr>\<close>
  have h1: \<open>readFile ?env = Some ''{"endpoints": []}''\<close> by simp
  have h2: \<open>trim ''{"endpoints": []}'' \<noteq> []\<close> by (simp add: trim_def isWhiteSpace_def)
  have h3: \<open>JSON_parse ?env ''{"endpoints": []}'' = Some (JObj [(''endpoints'', JArr [])])\<close>
    by simp
  have h4: \<open>getProp (JObj [(''endpoints'', JArr [])]) ''endpoints'' = JArr endpoints
              \<Longrightarrow> endpoints = []\<close> for endpoints
    by simp
  show ?thesis
    by (rule no_endpoints_gives_fallback [OF h1 h2 h3 h4])
qed

text \<open>
  The four fatal cases: no readable file, content that is empty after trimming, content
  that does not parse, and a parsed value that is falsy or whose \<^verbatim>\<open>typeof\<close> is not
  \<^verbatim>\<open>'object'\<close>. Each ends the load with an error and no document.
\<close>

lemma load_fatal_cases:
  "readFile env = None \<Longrightarrow>
     loadDocumentsJSON env = Inl (Error ''Execution blocked: file doesn't exist'')"
  "readFile env = Some rawContent \<Longrightarrow> trim rawContent = [] \<Longrightarrow>
     loadDocumentsJSON env = Inl (Error ''Execution blocked: file contents empty.'')"
  "readFile env = Some rawContent \<Longrightarrow> trim rawContent \<noteq> [] \<Longrightarrow>
   JSON_parse env rawContent = None \<Longrightarrow>
     loadDocumentsJSON env = Inl (Error ''Invalid JSON format in configuration'')"
  "readFile env = Some rawContent \<Longrightarrow> trim rawContent \<noteq> [] \<Longrightarrow>
   JSON_parse env rawContent = Some jsonContent \<Longrightarrow>
   \<not> truthy jsonContent \<or> \<not> typeofObject jsonContent \<Longrightarrow>
     loadDocumentsJSON env = Inl (Error ''Invalid JSON structure: root must be an object'')"
  by (auto simp: loadDocumentsJSON_def dest: trim_nonempty)

text \<open>
  C3 at a root that is an array. \<^verbatim>\<open>typeof [] === 'object'\<close>, so the check of the root
  lets an array pass although the error it guards reads "root must be an object"; the
  array has no \<^verbatim>\<open>endpoints\<close>, and the load returns the fallback document where C3 asks
  for a fatal error and no document.
\<close>

theorem array_root_gives_fallback:
  "loadDocumentsJSON
     \<lparr>readFile = Some ''[]'',
      JSON_parse = (\<lambda>s. if s = ''[]'' then Some (JArr []) else None),
      JSON_stringify = (\<lambda>v. []),
      buildGlobalPartitionMap = (\<lambda>v. Inr []),
      now = ''2025-01-01T00:00:00.000Z'',
      random = ''k3x9q2a'',
      toNumber = (\<lambda>v. NaN)\<rparr>
   = Inr (getFallbackDocument
           \<lparr>readFile = Some ''[]'',
            JSON_parse = (\<lambda>s. if s = ''[]'' then Some (JArr []) else None),
            JSON_stringify = (\<lambda>v. []),
            buildGlobalPartitionMap = (\<lambda>v. Inr []),
            now = ''2025-01-01T00:00:00.000Z'',
            random = ''k3x9q2a'',
            toNumber = (\<lambda>v. NaN)\<rparr>
           ''No valid endpoints in configuration'')"
  by (simp add: loadDocumentsJSON_def trim_def isWhiteSpace_def hasValidSequence_def)

theorem array_root_gives_fallback_witness:
  "\<exists>d. loadDocumentsJSON
         \<lparr>readFile = Some ''[]'',
          JSON_parse = (\<lambda>s. if s = ''[]'' then Some (JArr []) else None),
          JSON_stringify = (\<lambda>v. []),
          buildGlobalPartitionMap = (\<lambda>v. Inr []),
          now = ''2025-01-01T00:00:00.000Z'',
          random = ''k3x9q2a'',
          toNumber = (\<lambda>v. NaN)\<rparr>
        = Inr \<lparr>documents = [d], partitionMap = []\<rparr>
      \<and> getProp (metadata d) ''chunkType'' = JStr ''fallback''"
  using array_root_gives_fallback
  by (simp add: getFallbackDocument_def)

text \<open>
  C4 at two documents that pass the check of the endpoints (a non-empty array), where C4
  asks for one summary record. In the first, the partitions of the endpoint are the
  string \<^verbatim>\<open>"p1"\<close>: the loop of \<^verbatim>\<open>buildEndpointAreaRelations\<close> tests
  \<^verbatim>\<open>Array.isArray(endpoint.partitions)\<close> and skips the endpoint, no relation is made, and
  the report after the loop tests only \<^verbatim>\<open>ep.partitions?.length > 0\<close> before it calls
  \<^verbatim>\<open>ep.partitions.join\<close>, which a string does not have. In the second, the only entry of
  the endpoints is \<^verbatim>\<open>null\<close>: the loop tests \<^verbatim>\<open>!endpoint\<close>, the statistics read
  \<^verbatim>\<open>ep.category\<close> without a test. Both times the exception leaves the loader.
\<close>

theorem loader_throws_on_validated_document:
  \<open>loadDocumentsJSON
     \<lparr>readFile = Some ''{"endpoints":[{"uuid":"e1","category":18,"partitions":"p1"}],"areas":[{"uuid":"a1","name":"Kitchen","partitions":["p1"]}]}'',
      JSON_parse = (\<lambda>s. if s = ''{"endpoints":[{"uuid":"e1","category":18,"partitions":"p1"}],"areas":[{"uuid":"a1","name":"Kitchen","partitions":["p1"]}]}''
         then Some (JObj [(''endpoints'',
                            JArr [JObj [(''uuid'', JStr ''e1''), (''category'', JNum 18),
                                        (''partitions'', JStr ''p1'')]]),
                          (''areas'',
                            JArr [JObj [(''uuid'', JStr ''a1''), (''name'', JStr ''Kitchen''),
                                        (''partitions'', JArr [JStr ''p1''])]])])
         else None),
      JSON_stringify = (\<lambda>v. []),
      buildGlobalPartitionMap = (\<lambda>v. Inr [(''p1'', ''Partition_p1'')]),
      now = ''2025-01-01T00:00:00.000Z'',
      random = ''k3x9q2a'',
      toNumber = (\<lambda>v. NaN)\<rparr>
   = Inl TypeError
   \<and> loadDocumentsJSON
       \<lparr>readFile = Some ''{"endpoints":[null]}'',
        JSON_parse = (\<lambda>s. if s = ''{"endpoints":[null]}''
                           then Some (JObj [(''endpoints'', JArr [JNull])]) else None),
        JSON_stringify = (\<lambda>v. []),
        buildGlobalPartitionMap = (\<lambda>v. Inr []),
        now = ''2025-01-01T00:00:00.000Z'',
        random = ''k3x9q2a'',
        toNumber = (\<lambda>v. NaN)\<rparr>
     = Inl TypeError\<close>
  by (simp add: loadDocumentsJSON_def synthesize_def statistics_def trim_def isWhiteSpace_def
      hasValidSequence_def orElse_def buildAreaPartitionMaps_def areaMapOf_def partitionUuid_def
      partitionName_def buildEndpointAreaRelations_def endpointStep_def reportThrows_def
      areaReportThrows_def endpointReportThrows_def Let_def)

theorem loader_throws_on_validated_document_witness:
  \<open>\<not> (\<exists>result. loadDocumentsJSON
     \<lparr>readFile = Some ''{"endpoints":[{"uuid":"e1","category":18,"partitions":"p1"}],"areas":[{"uuid":"a1","name":"Kitchen","partitions":["p1"]}]}'',
      JSON_parse = (\<lambda>s. if s = ''{"endpoints":[{"uuid":"e1","category":18,"partitions":"p1"}],"areas":[{"uuid":"a1","name":"Kitchen","partitions":["p1"]}]}''
         then Some (JObj [(''endpoints'',
                            JArr [JObj [(''uuid'', JStr ''e1''), (''category'', JNum 18),
                                        (''partitions'', JStr ''p1'')]]),
                          (''areas'',
                            JArr [JObj [(''uuid'', JStr ''a1''), (''name'', JStr ''Kitchen''),
                                        (''partitions'', JArr [JStr ''p1''])]])])
         else None),
      JSON_stringify = (\<lambda>v. []),
      buildGlobalPartitionMap = (\<lambda>v. Inr [(''p1'', ''Partition_p1'')]),
      now = ''2025-01-01T00:00:00.000Z'',
      random = ''k3x9q2a'',
      toNumber = (\<lambda>v. NaN)\<rparr>
   = Inr result)\<close>
  using loader_throws_on_validated_document by simp

text \<open>
  When nothing throws, the loader does return the summary that C4 describes: for
  endpoints that are a non-empty array without \<^verbatim>\<open>null\<close>, areas that are an array or
  absent, a global partition map that is built and a call of
  \<^verbatim>\<open>buildEndpointAreaRelations\<close> that returns.
\<close>

lemma getProp_arr_obj:
  "getProp jsonContent k = JArr xs \<Longrightarrow>
     truthy jsonContent \<and> typeofObject jsonContent \<and> \<not> nullish jsonContent"
  by (cases jsonContent) auto

lemma summary_when_nothing_throws:
  assumes "readFile env = Some rawContent"
    and "trim rawContent \<noteq> []"
    and "JSON_parse env rawContent = Some jsonContent"
    and "getProp jsonContent ''endpoints'' = JArr endpoints"
    and "endpoints \<noteq> []"
    and "\<not> list_ex nullish endpoints"
    and "getProp jsonContent ''areas'' = JArr areas
         \<or> (nullish (getProp jsonContent ''areas'') \<and> areas = [])"
    and "buildGlobalPartitionMap env jsonContent = Inr globalPartitionMap"
    and "\<And>maps. buildAreaPartitionMaps jsonContent = Inr maps \<Longrightarrow>
           \<exists>rels. buildEndpointAreaRelations (toNumber env) jsonContent maps = Inr rels"
  shows "\<exists>d. loadDocumentsJSON env = Inr \<lparr>documents = [d], partitionMap = globalPartitionMap\<rparr>
             \<and> getProp (metadata d) ''chunkType'' = JStr ''summary''
             \<and> getProp (metadata d) ''isValid'' = JBool True
             \<and> getProp (metadata d) ''totalEndpoints'' = JNum (int (length endpoints))
             \<and> getProp (metadata d) ''totalAreas'' = JNum (int (length areas))"
proof -
  have root: "truthy jsonContent" "typeofObject jsonContent" "\<not> nullish jsonContent"
    using getProp_arr_obj [OF assms(4)] by simp_all
  have valid: "hasValidSequence (getProp jsonContent ''endpoints'')"
    using assms(4,5) by (simp add: hasValidSequence_def)
  have load: "loadDocumentsJSON env = synthesize env jsonContent"
    using assms(1-3) trim_nonempty [OF assms(2)] valid root
    by (simp add: loadDocumentsJSON_def)
  have te: "orElse (lengthOf (getProp jsonContent ''endpoints'')) (JNum 0)
              = JNum (int (length endpoints))"
    using assms(4,5) by (simp add: orElse_def)
  have ta: "orElse (lengthOf (getProp jsonContent ''areas'')) (JNum 0) = JNum (int (length areas))"
    using assms(7) by (cases "getProp jsonContent ''areas''") (auto simp: orElse_def)
  have "\<exists>maps. buildAreaPartitionMaps jsonContent = Inr maps"
    using root(3) by (simp add: buildAreaPartitionMaps_def split: json.splits)
  then obtain maps where m: "buildAreaPartitionMaps jsonContent = Inr maps"
    by blast
  obtain rels where r: "buildEndpointAreaRelations (toNumber env) jsonContent maps = Inr rels"
    using assms(9) [OF m] by blast
  obtain stats where s: "statistics jsonContent globalPartitionMap = Inr stats"
    using assms(4,6) by (simp add: statistics_def)
  have "synthesize env jsonContent
          = Inr \<lparr>documents =
                   [mainDocument env jsonContent stats globalPartitionMap
                      (hasValidSequence (getProp jsonContent ''areas''))],
                 partitionMap = globalPartitionMap\<rparr>"
    using assms(8) m r s by (simp add: synthesize_def Let_def ta)
  then show ?thesis
    unfolding load by (simp add: mainDocument_def te ta)
qed

text \<open>
  C8. Whenever the loader returns the summary document, its metadata field
  \<^verbatim>\<open>hasPartitions\<close> is true exactly when the partition map returned with it is not empty,
  and that map is the one \<^verbatim>\<open>buildGlobalPartitionMap\<close> built from the parsed document.
\<close>

theorem hasPartitions_mirrors_map:
  assumes "loadDocumentsJSON env = Inr result"
    and "documents result = [d]"
    and "getProp (metadata d) ''chunkType'' = JStr ''summary''"
  shows "getProp (metadata d) ''hasPartitions'' = JBool (partitionMap result \<noteq> [])
         \<and> (\<exists>rawContent jsonContent.
               readFile env = Some rawContent \<and> JSON_parse env rawContent = Some jsonContent
               \<and> buildGlobalPartitionMap env jsonContent = Inr (partitionMap result))"
  using assms
  by (auto simp: loadDocumentsJSON_def synthesize_def Let_def getFallbackDocument_def
      mainDocument_def
      split: option.splits if_splits sum.splits)

theorem hasPartitions_mirrors_map_witness:
  \<open>\<exists>result d. loadDocumentsJSON
         \<lparr>readFile = Some ''{"endpoints":[{"uuid":"e1","category":18,"partitions":["p1"]}],"areas":[{"uuid":"a1","name":"Kitchen","partitions":["p1"]}]}'',
          JSON_parse = (\<lambda>s. if s = ''{"endpoints":[{"uuid":"e1","category":18,"partitions":["p1"]}],"areas":[{"uuid":"a1","name":"Kitchen","partitions":["p1"]}]}''
             then Some (JObj [(''endpoints'',
                                JArr [JObj [(''uuid'', JStr ''e1''), (''category'', JNum 18),
                                            (''partitions'', JArr [JStr ''p1''])]]),
                              (''areas'',
                                JArr [JObj [(''uuid'', JStr ''a1''), (''name'', JStr ''Kitchen''),
                                            (''partitions'', JArr [JStr ''p1''])]])])
             else None),
          JSON_stringify = (\<lambda>v. []),
          buildGlobalPartitionMap = (\<lambda>v. Inr [(''p1'', ''Partition_p1'')]),
          now = ''2025-01-01T00:00:00.000Z'',
          random = ''k3x9q2a'',
          toNumber = (\<lambda>v. NaN)\<rparr>
        = Inr result
      \<and> documents result = [d]
      \<and> getProp (metadata d) ''chunkType'' = JStr ''summary''
      \<and> partitionMap result = [(''p1'', ''Partition_p1'')]
      \<and> getProp (metadata d) ''hasPartitions'' = JBool True\<close>
proof -
  let ?raw = \<open>''{"endpoints":[{"uuid":"e1","category":18,"partitions":["p1"]}],"areas":[{"uuid":"a1","name":"Kitchen","partitions":["p1"]}]}''\<close>
  let ?eps = "[JObj [(''uuid'', JStr ''e1''), (''category'', JNum 18),
                     (''partitions'', JArr [JStr ''p1''])]]"
  let ?areas = "[JObj [(''uuid'', JStr ''a1''), (''name'', JStr ''Kitchen''),
                       (''partitions'', JArr [JStr ''p1''])]]"
  let ?doc = "JObj [(''endpoints'', JArr ?eps), (''areas'', JArr ?areas)]"
  let ?env = "\<lparr>readFile = Some ?raw,
          JSON_parse = (\<lambda>s. if s = ?raw then Some ?doc else None),
          JSON_stringify = (\<lambda>v. []),
          buildGlobalPartitionMap = (\<lambda>v. Inr [(''p1'', ''Partition_p1'')]),
          now = ''2025-01-01T00:00:00.000Z'',
          random = ''k3x9q2a'',
          toNumber = (\<lambda>v. NaN)\<rparr>"
  let ?d = "mainDocument ?env ?doc
         (JObj [(''totalEndpoints'', JNum 1), (''totalAreas'', JNum 1),
                (''totalPartitions'', JNum 1), (''sensorCount'', JNum 1),
                (''actuatorCount'', JNum 0), (''controllerCount'', JNum 0)])
         [(''p1'', ''Partition_p1'')] True"
  let ?result = "\<lparr>documents = [?d], partitionMap = [(''p1'', ''Partition_p1'')]\<rparr>"
  have load: "loadDocumentsJSON ?env = Inr ?result"
    by (simp add: loadDocumentsJSON_def synthesize_def statistics_def trim_def isWhiteSpace_def
      hasValidSequence_def orElse_def buildAreaPartitionMaps_def areaMapOf_def partitionUuid_def
      partitionName_def buildEndpointAreaRelations_def endpointStep_def endpointNameOf_def
      mapKey_def sharedPartitions_def arrIncludes_def sameValueZero_def relationOf_def
      reportThrows_def relationReportThrows_def areaReportThrows_def endpointReportThrows_def
      sensorCount_def actuatorCount_def controllerCount_def isSensor_def isActuator_def
      isController_def Let_def)
  have docs: "documents ?result = [?d]" by simp
  have c: "getProp (metadata ?d) ''chunkType'' = JStr ''summary''"
    by (simp add: mainDocument_def)
  have "getProp (metadata ?d) ''hasPartitions'' = JBool True"
    using hasPartitions_mirrors_map [OF load docs c] by simp
  with load docs c show ?thesis
    by (intro exI [of _ ?result] exI [of _ ?d]) simp
qed

end
